theory Spec2Isabelle
  imports Complex_Main "HOL-Library.Multiset" "HOL-Library.Sublist"
begin

section \<open>Blog API: the post entity\<close>

text \<open>
  The class \<^verbatim>\<open>BlogPostOut\<close> of \<^verbatim>\<open>main.py\<close>, which is also the shape of every
  document of the collection \<^verbatim>\<open>blogpost\<close>. It is declared in two steps, so that a
  document without its \<^verbatim>\<open>content\<close> key (what the listing returns) has a type of its
  own: \<open>PostSummary\<close> holds every key but \<^verbatim>\<open>content\<close>, and \<open>BlogPostOut\<close> adds
  it. A \<^verbatim>\<open>datetime\<close> is an integer count of microseconds since the epoch (UTC). The
  key \<^verbatim>\<open>_id\<close> that the store adds to a document is left out: \<^verbatim>\<open>list_posts\<close> only
  turns it into a string and \<^verbatim>\<open>get_post\<close> pops it.
\<close>

record PostSummary =
  title :: string
  slug :: string
  excerpt :: string
  author :: string
  tags :: "string list"
  cover_image :: "string option"
  created_at :: int
  updated_at :: int

record BlogPostOut = PostSummary +
  content :: string

section \<open>Python's string helpers\<close>

definition digit_char :: "nat \<Rightarrow> char" where
  "digit_char d = char_of (48 + d)"

text \<open>\<^verbatim>\<open>str(n)\<close> for a natural number: its decimal digits, most significant first.\<close>

function str_nat :: "nat \<Rightarrow> string" where
  "str_nat n = (if n < 10 then [digit_char n] else str_nat (n div 10) @ [digit_char (n mod 10)])"
  by pat_completeness auto
termination
  by (relation "measure (\<lambda>n. n)") auto

declare str_nat.simps [simp del]

text \<open>\<^verbatim>\<open>str(i)\<close> for a Python int.\<close>

definition str_int :: "int \<Rightarrow> string" where
  "str_int i = (if i < 0 then CHR ''-'' # str_nat (nat (- i)) else str_nat (nat i))"

text \<open>
  \<^verbatim>\<open>s.zfill(width)\<close>: pads with zeros on the left up to \<^verbatim>\<open>width\<close>; a leading sign
  stays in front of the padding.
\<close>

definition zfill :: "nat \<Rightarrow> string \<Rightarrow> string" where
  "zfill width s =
     (if width \<le> length s then s
      else (case s of
              [] \<Rightarrow> replicate width CHR ''0''
            | c # r \<Rightarrow>
                if c = CHR ''+'' \<or> c = CHR ''-''
                then c # replicate (width - length s) CHR ''0'' @ r
                else replicate (width - length s) CHR ''0'' @ s))"

text \<open>\<^verbatim>\<open>sep.join(parts)\<close>.\<close>

fun join :: "string \<Rightarrow> string list \<Rightarrow> string" where
  "join sep [] = []"
| "join sep [x] = x"
| "join sep (x # y # ys) = x @ sep @ join sep (y # ys)"

definition newline :: char where
  "newline = CHR 0x0A"

section \<open>The seed generator\<close>

definition authors :: "string list" where
  "authors =
     [''Alex Carter'', ''Jordan Lee'', ''Taylor Morgan'', ''Riley Brooks'', ''Casey Kim'',
      ''Avery Patel'', ''Jamie Rivera'', ''Morgan Blake'', ''Quinn Parker'', ''Drew Nguyen'']"

definition tag_pool :: "string list" where
  "tag_pool =
     [''tech'', ''design'', ''business'', ''ai'', ''dev'', ''life'', ''product'', ''growth'',
      ''marketing'', ''tutorial'']"

definition lorem_paras :: "string list" where
  "lorem_paras =
     [''Lorem ipsum dolor sit amet, consectetur adipiscing elit. Vivamus at mi sit amet odio ultrices pulvinar.'',
      ''Curabitur at sapien sollicitudin, aliquam neque et, lacinia augue. Mauris nec massa quis justo cursus.'',
      ''Suspendisse potenti. Ut a ligula sed arcu vestibulum dapibus vitae non mi. Donec vel sagittis risus.'',
      ''Integer vitae dui at sapien volutpat ullamcorper. Praesent feugiat, enim vitae suscipit dapibus, urna massa.'',
      ''Sed sit amet tortor vitae justo scelerisque rhoncus. Cras at semper elit. Proin pretium, sapien ut bibendum.'']"

text \<open>
  \<^verbatim>\<open>pool[k % len(pool)]\<close> for a Python int \<^verbatim>\<open>k\<close>. The remainder of a division by
  a positive number is never negative in Python, as in HOL, so the index is in range
  whenever the pool is not empty.
\<close>

definition pick :: "'a list \<Rightarrow> int \<Rightarrow> 'a" where
  "pick pool k = pool ! nat (k mod int (length pool))"

text \<open>
  \<^verbatim>\<open>list({a, b, c})\<close>: the elements of the set, each once, in the order in which the
  interpreter iterates over the set. That order depends on the hashes of the strings and
  differs from one process to the next, so it is a parameter \<open>ord\<close> of the generator:
  a function from the elements written in the display to the list obtained.
\<close>

type_synonym set_order = "string list \<Rightarrow> string list"

definition lists_a_set :: "set_order \<Rightarrow> bool" where
  "lists_a_set ord = (\<forall>xs. set (ord xs) = set xs \<and> distinct (ord xs))"

text \<open>
  The body of the generation loop of \<^verbatim>\<open>seed_posts\<close> (lines 113 to 140) for the
  index \<open>i\<close>; \<open>now\<close> is the time stamp taken once before the loop.
\<close>

definition idx_of :: "int \<Rightarrow> string" where
  "idx_of i = zfill 4 (str_int i)"

definition tag_picks :: "int \<Rightarrow> string list" where
  "tag_picks i = [pick tag_pool i, pick tag_pool (i * 3), pick tag_pool (i * 7)]"

definition make_content :: "string \<Rightarrow> int \<Rightarrow> string" where
  "make_content ttl i =
     join [newline, newline]
       [''# '' @ ttl,
        pick lorem_paras (i + 0),
        pick lorem_paras (i + 1),
        pick lorem_paras (i + 2),
        ''## Key Takeaways'',
        ''- Insight one about the topic'',
        ''- Practical tip for readers'',
        ''- Closing thought to inspire action'']"

definition make_doc :: "int \<Rightarrow> set_order \<Rightarrow> int \<Rightarrow> BlogPostOut" where
  "make_doc now ord i =
     (let idx = idx_of i;
          ttl = ''Sample Blog Post '' @ idx
      in \<lparr> title = ttl,
           slug = ''sample-blog-post-'' @ idx,
           excerpt = ''This is a short summary for post '' @ idx @ ''. '' @ pick lorem_paras i,
           author = pick authors i,
           tags = ord (tag_picks i),
           cover_image = None,
           created_at = now,
           updated_at = now,
           content = make_content ttl i \<rparr>)"

text \<open>\<^verbatim>\<open>for i in range(1, total + 1)\<close>: the list \<^verbatim>\<open>docs\<close>.\<close>

definition make_docs :: "int \<Rightarrow> set_order \<Rightarrow> int \<Rightarrow> BlogPostOut list" where
  "make_docs now ord tot = map (make_doc now ord) [1..tot]"

section \<open>The document store\<close>

text \<open>
  The collection \<^verbatim>\<open>db["blogpost"]\<close> is the list of its documents in insertion order;
  \<^verbatim>\<open>db\<close> itself is \<open>None\<close> when the database is not available. The driver is not
  part of the repository: what follows is the part of its behaviour that the handlers
  rely on. \<^verbatim>\<open>ensure_indexes\<close> has put a unique index on \<^verbatim>\<open>slug\<close>, so
  \<^verbatim>\<open>insert_one\<close> raises a duplicate key error for a slug that is already there. It may
  also raise for a reason of its own (network, time-out): \<open>flt doc\<close> says that it does
  so for \<open>doc\<close>. \<^verbatim>\<open>estimated_document_count\<close> is taken to be exact.
\<close>

type_synonym collection = "BlogPostOut list"

type_synonym store_fault = "BlogPostOut \<Rightarrow> bool"

datatype insert_error = DuplicateKeyError | OtherStoreError

definition insert_one :: "store_fault \<Rightarrow> collection \<Rightarrow> BlogPostOut \<Rightarrow> insert_error + collection" where
  "insert_one flt coll doc =
     (if flt doc then Inl OtherStoreError
      else if slug doc \<in> set (map slug coll) then Inl DuplicateKeyError
      else Inr (coll @ [doc]))"

definition estimated_document_count :: "collection \<Rightarrow> int" where
  "estimated_document_count coll = int (length coll)"

definition find_one :: "string \<Rightarrow> collection \<Rightarrow> BlogPostOut option" where
  "find_one s coll = List.find (\<lambda>doc. slug doc = s) coll"

section \<open>Errors and responses\<close>

datatype http_error =
    HTTPException nat string
  | RequestValidationError

text \<open>
  The two dictionaries that \<^verbatim>\<open>seed_posts\<close> returns, both with \<^verbatim>\<open>"status": "ok"\<close>:
  \<open>SeedMessage m\<close> is \<^verbatim>\<open>{"status": "ok", "message": m}\<close> and \<open>SeedInserted n t\<close> is
  \<^verbatim>\<open>{"status": "ok", "inserted": n, "total": t}\<close>.
\<close>

datatype seed_response =
    SeedMessage string
  | SeedInserted int int

text \<open>The value under the key \<^verbatim>\<open>"inserted"\<close> of a response, when it has that key.\<close>

fun reported_inserted :: "seed_response \<Rightarrow> int option" where
  "reported_inserted (SeedMessage m) = None"
| "reported_inserted (SeedInserted n t) = Some n"

section \<open>The seed operation\<close>

text \<open>
  The insertion loop of \<^verbatim>\<open>seed_posts\<close> (lines 143 to 150): every exception of
  \<^verbatim>\<open>insert_one\<close> is caught and the loop goes on with the next document.
\<close>

fun insert_docs :: "store_fault \<Rightarrow> BlogPostOut list \<Rightarrow> collection \<Rightarrow> int \<Rightarrow> collection \<times> int" where
  "insert_docs flt [] coll inserted = (coll, inserted)"
| "insert_docs flt (doc # docs) coll inserted =
     (case insert_one flt coll doc of
        Inr coll' \<Rightarrow> insert_docs flt docs coll' (inserted + 1)
      | Inl e \<Rightarrow> insert_docs flt docs coll inserted)"

definition seed_posts ::
  "store_fault \<Rightarrow> int \<Rightarrow> set_order \<Rightarrow> collection option \<Rightarrow> int
     \<Rightarrow> http_error + (seed_response \<times> collection)" where
  "seed_posts flt now ord db tot =
     (case db of
        None \<Rightarrow> Inl (HTTPException 500 ''Database not available'')
      | Some coll \<Rightarrow>
          (let existing = estimated_document_count coll in
           if tot \<le> existing
           then Inr (SeedMessage (''Database already has '' @ str_int existing @ '' posts''), coll)
           else
             (let docs = make_docs now ord tot;
                  r = insert_docs flt docs coll 0
              in Inr (SeedInserted (snd r) (estimated_document_count (fst r)), fst r))))"

section \<open>The listing query\<close>

text \<open>
  The filter dictionary \<^verbatim>\<open>filter_q\<close>: \<open>Or cs\<close> is the key \<^verbatim>\<open>"$or"\<close> with its list of
  conditions, \<open>Regex f q\<close> is \<^verbatim>\<open>{f: {"$regex": q, "$options": "i"}}\<close>, and \<open>TagsEq t\<close>
  is the key \<^verbatim>\<open>"tags"\<close> with the value \<open>t\<close>. The keys of a filter hold together.
\<close>

datatype field = Title | Excerpt | Content | Tags

datatype condition = Regex field string

datatype clause = Or "condition list" | TagsEq string

text \<open>\<^verbatim>\<open>if q:\<close> and \<^verbatim>\<open>if tag:\<close>: an absent parameter and the empty string are both false.\<close>

fun truthy :: "string option \<Rightarrow> bool" where
  "truthy None = False"
| "truthy (Some s) = (s \<noteq> [])"

definition build_filter :: "string option \<Rightarrow> string option \<Rightarrow> clause list" where
  "build_filter q tag =
     (if truthy q
      then [Or [Regex Title (the q), Regex Excerpt (the q), Regex Content (the q),
                Regex Tags (the q)]]
      else [])
     @ (if truthy tag then [TagsEq (the tag)] else [])"

text \<open>
  How the store reads a filter. \<open>rx q s\<close> says that the pattern \<open>q\<close>, compiled without
  regard to case, has a match somewhere in the string \<open>s\<close>; the pattern engine belongs
  to the store, so it is a parameter. A condition on an array field (\<^verbatim>\<open>tags\<close>) holds
  when it holds for one of the entries, and an equality on an array field holds when one
  entry is equal to the value.
\<close>

type_synonym regex_engine = "string \<Rightarrow> string \<Rightarrow> bool"

fun field_values :: "field \<Rightarrow> BlogPostOut \<Rightarrow> string list" where
  "field_values Title doc = [title doc]"
| "field_values Excerpt doc = [excerpt doc]"
| "field_values Content doc = [content doc]"
| "field_values Tags doc = tags doc"

fun condition_holds :: "regex_engine \<Rightarrow> condition \<Rightarrow> BlogPostOut \<Rightarrow> bool" where
  "condition_holds rx (Regex f q) doc = list_ex (rx q) (field_values f doc)"

fun clause_holds :: "regex_engine \<Rightarrow> clause \<Rightarrow> BlogPostOut \<Rightarrow> bool" where
  "clause_holds rx (Or cs) doc = list_ex (\<lambda>c. condition_holds rx c doc) cs"
| "clause_holds rx (TagsEq t) doc = (t \<in> set (tags doc))"

definition matches :: "regex_engine \<Rightarrow> clause list \<Rightarrow> BlogPostOut \<Rightarrow> bool" where
  "matches rx filter_q doc = list_all (\<lambda>c. clause_holds rx c doc) filter_q"

definition find_docs :: "regex_engine \<Rightarrow> clause list \<Rightarrow> collection \<Rightarrow> BlogPostOut list" where
  "find_docs rx filter_q coll = filter (matches rx filter_q) coll"

definition count_documents :: "regex_engine \<Rightarrow> clause list \<Rightarrow> collection \<Rightarrow> int" where
  "count_documents rx filter_q coll = int (length (find_docs rx filter_q coll))"

text \<open>
  \<^verbatim>\<open>.sort("created_at", -1)\<close>: newest first. Documents with the same time stamp keep
  their order here; the store promises no order among them.
\<close>

fun insert_desc :: "BlogPostOut \<Rightarrow> BlogPostOut list \<Rightarrow> BlogPostOut list" where
  "insert_desc doc [] = [doc]"
| "insert_desc doc (x # xs) =
     (if created_at x \<le> created_at doc then doc # x # xs else x # insert_desc doc xs)"

definition sort_created_at_desc :: "BlogPostOut list \<Rightarrow> BlogPostOut list" where
  "sort_created_at_desc xs = foldr insert_desc xs []"

text \<open>The projection \<^verbatim>\<open>{"content": 0}\<close>: every key but \<^verbatim>\<open>content\<close>.\<close>

definition exclude_content :: "BlogPostOut \<Rightarrow> PostSummary" where
  "exclude_content doc =
     \<lparr> title = title doc, slug = slug doc, excerpt = excerpt doc, author = author doc,
       tags = tags doc, cover_image = cover_image doc, created_at = created_at doc,
       updated_at = updated_at doc \<rparr>"

record list_response =
  resp_page :: int
  resp_limit :: int
  resp_total :: int
  resp_pages :: int
  resp_items :: "PostSummary list"

text \<open>\<^verbatim>\<open>(total + limit - 1) // limit if limit else 1\<close>, on Python's integers.\<close>

definition pages_of :: "int \<Rightarrow> int \<Rightarrow> int" where
  "pages_of tot limit = (if limit \<noteq> 0 then (tot + limit - 1) div limit else 1)"

text \<open>
  \<^verbatim>\<open>list_posts\<close>. The framework checks \<^verbatim>\<open>page >= 1\<close> and \<^verbatim>\<open>1 <= limit <= 50\<close>
  before it calls the body, so the skip and the limit given to the cursor are never
  negative and the limit is never zero.
\<close>

definition list_posts ::
  "regex_engine \<Rightarrow> collection option \<Rightarrow> int \<Rightarrow> int \<Rightarrow> string option \<Rightarrow> string option
     \<Rightarrow> http_error + list_response" where
  "list_posts rx db page limit q tag =
     (if page < 1 \<or> limit < 1 \<or> 50 < limit then Inl RequestValidationError
      else
        (case db of
           None \<Rightarrow> Inl (HTTPException 500 ''Database not available'')
         | Some coll \<Rightarrow>
             (let filter_q = build_filter q tag;
                  tot = count_documents rx filter_q coll;
                  cursor = take (nat limit)
                             (drop (nat ((page - 1) * limit))
                                (sort_created_at_desc (find_docs rx filter_q coll)))
              in Inr \<lparr> resp_page = page, resp_limit = limit, resp_total = tot,
                       resp_pages = pages_of tot limit,
                       resp_items = map exclude_content cursor \<rparr>)))"

section \<open>Single-post retrieval\<close>

definition get_post :: "collection option \<Rightarrow> string \<Rightarrow> http_error + BlogPostOut" where
  "get_post db s =
     (case db of
        None \<Rightarrow> Inl (HTTPException 500 ''Database not available'')
      | Some coll \<Rightarrow>
          (case find_one s coll of
             None \<Rightarrow> Inl (HTTPException 404 ''Post not found'')
           | Some doc \<Rightarrow> Inr doc))"

section \<open>A pattern engine for literal characters and the dot\<close>

text \<open>
  The pattern language of the store is far larger than what is written here. This is
  the part of it that the search theorems are about: in a pattern, a dot stands for any
  character but a line feed and every other character stands for itself, upper and lower
  case taken as equal (option \<^verbatim>\<open>i\<close>); the pattern may match anywhere in the string. It
  says what the store does for a pattern whose only special character is the dot, and
  nothing below uses it on another pattern. Strings are byte strings, and only the
  letters A to Z have another case.
\<close>

definition lower_char :: "char \<Rightarrow> char" where
  "lower_char c =
     (if 65 \<le> (of_char c :: nat) \<and> (of_char c :: nat) \<le> 90
      then char_of ((of_char c :: nat) + 32) else c)"

definition atom_matches :: "char \<Rightarrow> char \<Rightarrow> bool" where
  "atom_matches p c = (if p = CHR ''.'' then c \<noteq> newline else lower_char p = lower_char c)"

fun match_here :: "string \<Rightarrow> string \<Rightarrow> bool" where
  "match_here [] s = True"
| "match_here (p # ps) [] = False"
| "match_here (p # ps) (c # cs) = (atom_matches p c \<and> match_here ps cs)"

fun dot_literal_search :: "string \<Rightarrow> string \<Rightarrow> bool" where
  "dot_literal_search q [] = match_here q []"
| "dot_literal_search q (c # cs) = (match_here q (c # cs) \<or> dot_literal_search q cs)"

text \<open>The characters with a special meaning in a pattern.\<close>

definition regex_metachars :: "char set" where
  "regex_metachars = set ''.^$*+?()[]{}|'' \<union> {CHR 0x5C}"

section \<open>The words of the specification\<close>

text \<open>
  \<open>q\<close> occurs in \<open>s\<close> as a substring when case is ignored: \<open>s\<close> is some prefix,
  then \<open>q\<close>, then some suffix, after both are put in lower case.
\<close>

definition ci_substring :: "string \<Rightarrow> string \<Rightarrow> bool" where
  "ci_substring q s = sublist (map lower_char q) (map lower_char s)"

text \<open>The four fields that the search looks at, any one of them being enough.\<close>

definition q_occurs :: "string \<Rightarrow> BlogPostOut \<Rightarrow> bool" where
  "q_occurs q doc =
     (ci_substring q (title doc) \<or> ci_substring q (excerpt doc) \<or> ci_substring q (content doc)
      \<or> list_ex (ci_substring q) (tags doc))"

text \<open>The slug that the generator gives to the index \<open>i\<close>.\<close>

definition seed_slug :: "int \<Rightarrow> string" where
  "seed_slug i = ''sample-blog-post-'' @ idx_of i"

section \<open>Scenarios\<close>

text \<open>
  Two calls of \<^verbatim>\<open>seed_posts\<close> in sequence with the same target count, the second on
  the store that the first one leaves. Each call has its own time stamp, its own order of
  iteration over sets and its own store faults. The result holds both responses and the
  final store.
\<close>

definition seed_twice ::
  "store_fault \<Rightarrow> store_fault \<Rightarrow> int \<Rightarrow> int \<Rightarrow> set_order \<Rightarrow> set_order \<Rightarrow> collection option \<Rightarrow> int
     \<Rightarrow> http_error + (seed_response \<times> seed_response \<times> collection)" where
  "seed_twice flt1 flt2 now1 now2 ord1 ord2 db tot =
     (case seed_posts flt1 now1 ord1 db tot of
        Inl e \<Rightarrow> Inl e
      | Inr r1 \<Rightarrow>
          (case seed_posts flt2 now2 ord2 (Some (snd r1)) tot of
             Inl e \<Rightarrow> Inl e
           | Inr r2 \<Rightarrow> Inr (fst r1, fst r2, snd r2)))"

text \<open>A store that never fails for a reason of its own.\<close>

definition no_fault :: store_fault where
  "no_fault doc = False"

text \<open>A store that fails on the document with the slug \<open>s\<close> and on no other.\<close>

definition fault_on :: "string \<Rightarrow> store_fault" where
  "fault_on s doc = (slug doc = s)"

text \<open>A post that was written by hand, not by the seed operation.\<close>

definition hello_post :: BlogPostOut where
  "hello_post =
     \<lparr> title = ''Hello World'', slug = ''hello-world'', excerpt = ''A greeting'',
       author = ''Alex Carter'', tags = [''life''], cover_image = None,
       created_at = 1, updated_at = 1, content = ''Hello to all'' \<rparr>"

text \<open>A post with the tag \<^verbatim>\<open>ai-generated\<close> and without the tag \<^verbatim>\<open>ai\<close>.\<close>

definition generated_post :: BlogPostOut where
  "generated_post =
     \<lparr> title = ''Machine Text'', slug = ''machine-text'', excerpt = ''Written by a model'',
       author = ''Jordan Lee'', tags = [''ai-generated'', ''tech''], cover_image = None,
       created_at = 2, updated_at = 2, content = ''Text made by a program'' \<rparr>"

text \<open>A post with the tag \<^verbatim>\<open>ai\<close>.\<close>

definition ai_post :: BlogPostOut where
  "ai_post =
     \<lparr> title = ''Learning Machines'', slug = ''learning-machines'', excerpt = ''On models'',
       author = ''Casey Kim'', tags = [''ai'', ''dev''], cover_image = None,
       created_at = 3, updated_at = 3, content = ''Lorem ipsum'' \<rparr>"

section \<open>Auxiliary functions for the proofs\<close>

text \<open>The three tags picked for an index with the residue \<open>r\<close> modulo ten.\<close>

definition picks_at :: "nat \<Rightarrow> string list" where
  "picks_at r = [tag_pool ! r, tag_pool ! ((r * 3) mod 10), tag_pool ! ((r * 7) mod 10)]"

text \<open>Reading a string of decimal digits back, to show that \<^verbatim>\<open>str\<close> loses nothing.\<close>

definition digit_val :: "char \<Rightarrow> nat" where
  "digit_val c = of_char c - 48"

definition parse_nat :: "string \<Rightarrow> nat" where
  "parse_nat s = foldl (\<lambda>a c. 10 * a + digit_val c) 0 s"

section \<open>The tags of a generated post\<close>

lemma length_tag_pool: "length tag_pool = 10"
  by (simp add: tag_pool_def)

lemma nat_scaled_mod:
  fixes i :: int
  assumes "0 \<le> k"
  shows "nat ((i * k) mod 10) = (nat (i mod 10) * nat k) mod 10"
proof -
  have "(i * k) mod 10 = ((i mod 10) * k) mod 10"
    by (simp add: mod_mult_left_eq)
  then have "nat ((i * k) mod 10) = nat (((i mod 10) * k) mod 10)"
    by simp
  also have "\<dots> = nat ((i mod 10) * k) mod nat 10"
    using assms by (intro nat_mod_distrib) simp_all
  also have "\<dots> = (nat (i mod 10) * nat k) mod 10"
    using assms by (simp add: nat_mult_distrib)
  finally show ?thesis .
qed

lemma tag_picks_residue: "tag_picks i = picks_at (nat (i mod 10))"
  using nat_scaled_mod [of 3 i] nat_scaled_mod [of 7 i]
  by (simp add: tag_picks_def pick_def length_tag_pool picks_at_def)

lemma below_ten:
  "(r::nat) < 10 \<Longrightarrow>
     r = 0 \<or> r = 1 \<or> r = 2 \<or> r = 3 \<or> r = 4 \<or> r = 5 \<or> r = 6 \<or> r = 7 \<or> r = 8 \<or> r = 9"
  by arith

lemma card_picks_at: "r < 10 \<Longrightarrow> card (set (picks_at r)) = (if 5 dvd r then 1 else 3)"
  by (drule below_ten, elim disjE) (simp_all add: picks_at_def tag_pool_def)

lemma distinct_picks_at: "r < 10 \<Longrightarrow> \<not> 5 dvd r \<Longrightarrow> distinct (picks_at r)"
  by (drule below_ten, elim disjE) (simp_all add: picks_at_def tag_pool_def)

lemma same_picks_at: "r < 10 \<Longrightarrow> 5 dvd r \<Longrightarrow> picks_at r = [tag_pool ! r, tag_pool ! r, tag_pool ! r]"
  by (drule below_ten, elim disjE) (simp_all add: picks_at_def tag_pool_def)

lemma dvd5_nat_residue: "(5 dvd (i::int)) = (5 dvd nat (i mod 10))"
proof -
  have "(5 dvd nat (i mod 10)) = (5 dvd (i mod 10))"
    by (metis int_dvd_int_iff nat_0_le of_nat_numeral pos_mod_sign zero_less_numeral)
  then show ?thesis
    by (simp add: dvd_mod_iff)
qed

lemma card_tag_picks: "card (set (tag_picks i)) = (if 5 dvd i then 1 else 3)"
proof -
  have "nat (i mod 10) < 10" by simp
  then have "card (set (picks_at (nat (i mod 10)))) = (if 5 dvd nat (i mod 10) then 1 else 3)"
    by (rule card_picks_at)
  then show ?thesis
    by (simp only: tag_picks_residue dvd5_nat_residue [of i])
qed

lemma distinct_tag_picks: "\<not> 5 dvd i \<Longrightarrow> distinct (tag_picks i)"
  using distinct_picks_at [of "nat (i mod 10)"]
  by (simp add: tag_picks_residue dvd5_nat_residue [of i])

lemma same_tag_picks:
  assumes "5 dvd i"
  shows "pick tag_pool (i * 3) = pick tag_pool i \<and> pick tag_pool (i * 7) = pick tag_pool i"
proof -
  have "nat (i mod 10) < 10" by simp
  moreover have "5 dvd nat (i mod 10)"
    using assms by (simp only: dvd5_nat_residue [of i])
  ultimately have "picks_at (nat (i mod 10)) =
      [tag_pool ! nat (i mod 10), tag_pool ! nat (i mod 10), tag_pool ! nat (i mod 10)]"
    by (rule same_picks_at)
  then have "tag_picks i = [pick tag_pool i, pick tag_pool i, pick tag_pool i]"
    by (simp add: tag_picks_residue pick_def length_tag_pool)
  then show ?thesis
    by (simp add: tag_picks_def)
qed

lemma int_below_ten:
  "0 \<le> (r::int) \<Longrightarrow> r < 10 \<Longrightarrow>
     r = 0 \<or> r = 1 \<or> r = 2 \<or> r = 3 \<or> r = 4 \<or> r = 5 \<or> r = 6 \<or> r = 7 \<or> r = 8 \<or> r = 9"
  by arith

lemma index_picks:
  fixes i :: int
  shows "(5 dvd i \<longrightarrow> i * 3 mod 10 = i mod 10 \<and> i * 7 mod 10 = i mod 10)
       \<and> (\<not> 5 dvd i \<longrightarrow> i * 3 mod 10 \<noteq> i mod 10 \<and> i * 7 mod 10 \<noteq> i mod 10
                           \<and> i * 3 mod 10 \<noteq> i * 7 mod 10)"
proof -
  define r where "r = i mod 10"
  have r0: "0 \<le> r" and r10: "r < 10"
    by (simp_all add: r_def)
  have m3: "i * 3 mod 10 = r * 3 mod 10" and m7: "i * 7 mod 10 = r * 7 mod 10"
    by (simp_all add: r_def mod_mult_left_eq)
  have d: "(5 dvd i) = (5 dvd r)"
    by (simp add: r_def dvd_mod_iff)
  have "(5 dvd r \<longrightarrow> r * 3 mod 10 = r \<and> r * 7 mod 10 = r)
       \<and> (\<not> 5 dvd r \<longrightarrow> r * 3 mod 10 \<noteq> r \<and> r * 7 mod 10 \<noteq> r \<and> r * 3 mod 10 \<noteq> r * 7 mod 10)"
    using int_below_ten [OF r0 r10] by (elim disjE) simp_all
  then show ?thesis
    unfolding m3 m7 d by (simp only: r_def [symmetric])
qed
lemma tags_make_doc: "tags (make_doc now ord i) = ord (tag_picks i)"
  by (simp add: make_doc_def Let_def)

lemma lists_a_set_remdups: "lists_a_set remdups"
  by (simp add: lists_a_set_def)

text \<open>
  Claim C10. Whatever the order in which the interpreter lists a set, and for every
  index \<open>i\<close> (so for every \<open>i \<ge> 1\<close>): the tags of the generated post are the set of
  the three picks, that set is not empty, and it has exactly one element when 5 divides
  \<open>i\<close> and exactly three otherwise, never two. The three indices \<open>i mod 10\<close>,
  \<open>(i * 3) mod 10\<close> and \<open>(i * 7) mod 10\<close> are all the same when 5 divides \<open>i\<close> and
  pairwise different otherwise.
\<close>

theorem tags_size_one_or_three:
  assumes "lists_a_set ord"
  shows "set (tags (make_doc now ord i)) = {pick tag_pool i, pick tag_pool (i * 3), pick tag_pool (i * 7)}
       \<and> set (tags (make_doc now ord i)) \<noteq> {}
       \<and> card (set (tags (make_doc now ord i))) = (if 5 dvd i then 1 else 3)
       \<and> length (tags (make_doc now ord i)) = (if 5 dvd i then 1 else 3)
       \<and> (5 dvd i \<longrightarrow> i * 3 mod 10 = i mod 10 \<and> i * 7 mod 10 = i mod 10)
       \<and> (\<not> 5 dvd i \<longrightarrow> i * 3 mod 10 \<noteq> i mod 10 \<and> i * 7 mod 10 \<noteq> i mod 10
                           \<and> i * 3 mod 10 \<noteq> i * 7 mod 10)"
proof -
  have s: "set (tags (make_doc now ord i)) = set (tag_picks i)"
    and d: "distinct (tags (make_doc now ord i))"
    using assms by (simp_all add: tags_make_doc lists_a_set_def)
  have c: "card (set (tags (make_doc now ord i))) = (if 5 dvd i then 1 else 3)"
    by (simp only: s card_tag_picks)
  have l: "length (tags (make_doc now ord i)) = (if 5 dvd i then 1 else 3)"
    using c distinct_card [OF d] by simp
  have e: "set (tags (make_doc now ord i)) =
      {pick tag_pool i, pick tag_pool (i * 3), pick tag_pool (i * 7)}"
    by (simp add: s tag_picks_def)
  have n: "set (tags (make_doc now ord i)) \<noteq> {}"
    by (simp add: e)
  show ?thesis
    using e n c l index_picks [of i] by (intro conjI) simp_all
qed

theorem tags_size_one_or_three_witness:
  "lists_a_set remdups
   \<and> card (set (tags (make_doc 0 remdups 5))) = 1
   \<and> card (set (tags (make_doc 0 remdups 3))) = 3"
proof -
  have five: "card (set (tags (make_doc 0 remdups 5))) = (if 5 dvd (5::int) then 1 else 3)"
    using tags_size_one_or_three [OF lists_a_set_remdups, of 0 5] by (elim conjE)
  have three: "card (set (tags (make_doc 0 remdups 3))) = (if 5 dvd (3::int) then 1 else 3)"
    using tags_size_one_or_three [OF lists_a_set_remdups, of 0 3] by (elim conjE)
  show ?thesis
    using five three lists_a_set_remdups by simp
qed

section \<open>Index strings and slugs\<close>

lemma of_char_digit_char: "d < 10 \<Longrightarrow> of_char (digit_char d) = 48 + d"
  by (simp add: digit_char_def)

lemma digit_val_digit_char: "d < 10 \<Longrightarrow> digit_val (digit_char d) = d"
  by (simp add: digit_val_def of_char_digit_char)

lemma parse_nat_snoc: "parse_nat (s @ [c]) = 10 * parse_nat s + digit_val c"
  by (simp add: parse_nat_def)

lemma parse_nat_str_nat: "parse_nat (str_nat n) = n"
proof (induction n rule: str_nat.induct)
  case (1 n)
  show ?case
  proof (cases "n < 10")
    case True
    then show ?thesis
      by (simp add: str_nat.simps [of n] parse_nat_def digit_val_digit_char)
  next
    case False
    then have "parse_nat (str_nat n) = 10 * parse_nat (str_nat (n div 10)) + n mod 10"
      by (simp add: str_nat.simps [of n] parse_nat_snoc digit_val_digit_char)
    with False "1.IH" show ?thesis
      by simp
  qed
qed

lemma parse_nat_zeros: "parse_nat (replicate k CHR ''0'' @ s) = parse_nat s"
proof (induction k)
  case 0
  show ?case by simp
next
  case (Suc k)
  have "foldl (\<lambda>a c. 10 * a + digit_val c) 0 (CHR ''0'' # replicate k CHR ''0'' @ s)
      = foldl (\<lambda>a c. 10 * a + digit_val c) 0 (replicate k CHR ''0'' @ s)"
    by (simp add: digit_val_def)
  with Suc show ?case
    by (simp add: parse_nat_def)
qed

lemma str_nat_not_empty: "str_nat n \<noteq> []"
  by (simp add: str_nat.simps [of n])

lemma digit_char_not_sign: "d < 10 \<Longrightarrow> digit_char d \<noteq> CHR ''+'' \<and> digit_char d \<noteq> CHR ''-''"
proof -
  assume "d < 10"
  then have "of_char (digit_char d) = 48 + d"
    by (rule of_char_digit_char)
  then show ?thesis
    by (auto dest!: arg_cong [where f = "of_char :: char \<Rightarrow> nat"])
qed

lemma hd_str_nat_digit: "\<exists>d < 10. hd (str_nat n) = digit_char d"
proof (induction n rule: str_nat.induct)
  case (1 n)
  show ?case
  proof (cases "n < 10")
    case True
    then show ?thesis
      by (auto simp: str_nat.simps [of n])
  next
    case False
    with "1.IH" show ?thesis
      by (simp add: str_nat.simps [of n] str_nat_not_empty)
  qed
qed

lemma zfill_str_nat:
  "zfill w (str_nat n) = replicate (w - length (str_nat n)) CHR ''0'' @ str_nat n"
proof (cases "str_nat n")
  case Nil
  then show ?thesis
    by (simp add: str_nat_not_empty)
next
  case (Cons c r)
  obtain d where "d < 10" and "hd (str_nat n) = digit_char d"
    using hd_str_nat_digit by blast
  with Cons have "c \<noteq> CHR ''+'' \<and> c \<noteq> CHR ''-''"
    using digit_char_not_sign by auto
  with Cons show ?thesis
    by (simp add: zfill_def)
qed

lemma idx_of_nonneg: "0 \<le> i \<Longrightarrow> idx_of i = replicate (4 - length (str_nat (nat i))) CHR ''0'' @ str_nat (nat i)"
  by (simp add: idx_of_def str_int_def zfill_str_nat)

lemma parse_nat_idx_of: "0 \<le> i \<Longrightarrow> int (parse_nat (idx_of i)) = i"
  by (simp add: idx_of_nonneg parse_nat_zeros parse_nat_str_nat)

lemma idx_of_inject: "0 \<le> i \<Longrightarrow> 0 \<le> j \<Longrightarrow> idx_of i = idx_of j \<Longrightarrow> i = j"
  by (metis parse_nat_idx_of)

lemma seed_slug_inject: "0 \<le> i \<Longrightarrow> 0 \<le> j \<Longrightarrow> seed_slug i = seed_slug j \<Longrightarrow> i = j"
  using idx_of_inject [of i j] by (simp add: seed_slug_def)




lemma title_make_doc: "title (make_doc now ord i) = ''Sample Blog Post '' @ idx_of i"
  by (simp add: make_doc_def Let_def)


lemma content_make_doc: "content (make_doc now ord i) = make_content (''Sample Blog Post '' @ idx_of i) i"
  by (simp add: make_doc_def Let_def)

section \<open>The fields of a generated post\<close>


lemma length_lorem_paras: "length lorem_paras = 5"
  by (simp add: lorem_paras_def)

lemma distinct_lorem_paras: "distinct lorem_paras"
  by (simp add: lorem_paras_def)

lemma int_below_five:
  "0 \<le> (r::int) \<Longrightarrow> r < 5 \<Longrightarrow> r = 0 \<or> r = 1 \<or> r = 2 \<or> r = 3 \<or> r = 4"
  by arith

lemma para_indices_distinct:
  fixes i :: int
  shows "i mod 5 \<noteq> (i + 1) mod 5 \<and> i mod 5 \<noteq> (i + 2) mod 5 \<and> (i + 1) mod 5 \<noteq> (i + 2) mod 5"
proof -
  define r where "r = i mod 5"
  have r0: "0 \<le> r" and r5: "r < 5"
    by (simp_all add: r_def)
  have m1: "(i + 1) mod 5 = (r + 1) mod 5" and m2: "(i + 2) mod 5 = (r + 2) mod 5"
    by (simp_all add: r_def mod_add_left_eq)
  have "r \<noteq> (r + 1) mod 5 \<and> r \<noteq> (r + 2) mod 5 \<and> (r + 1) mod 5 \<noteq> (r + 2) mod 5"
    using int_below_five [OF r0 r5] by (elim disjE) simp_all
  moreover have "i mod 5 = r"
    by (simp add: r_def)
  ultimately show ?thesis
    unfolding m1 m2 by simp
qed

lemma pick_lorem_inject:
  assumes "i mod 5 \<noteq> j mod 5"
  shows "pick lorem_paras i \<noteq> pick lorem_paras j"
proof -
  have "nat (i mod 5) < length lorem_paras" and "nat (j mod 5) < length lorem_paras"
    by (simp_all add: length_lorem_paras)
  moreover have "nat (i mod 5) \<noteq> nat (j mod 5)"
    using assms by (simp add: nat_eq_iff)
  ultimately have "lorem_paras ! nat (i mod 5) \<noteq> lorem_paras ! nat (j mod 5)"
    using distinct_lorem_paras by (simp add: nth_eq_iff_index_eq)
  then show ?thesis
    by (simp add: pick_def length_lorem_paras)
qed

text \<open>
  Claim C9. For every index \<open>i\<close>, the content of the generated post is the heading made
  of the title, then the pool paragraphs number \<open>(i + 0) mod 5\<close>, \<open>(i + 1) mod 5\<close> and
  \<open>(i + 2) mod 5\<close>, then the heading "Key Takeaways" and its three fixed lines, with an
  empty line between two parts. The three paragraph numbers are pairwise different, and
  so are the three paragraphs: no paragraph comes twice in one post.
\<close>

theorem content_layout:
  "content (make_doc now ord i) =
     ''# '' @ title (make_doc now ord i) @ [newline, newline]
     @ lorem_paras ! nat ((i + 0) mod 5) @ [newline, newline]
     @ lorem_paras ! nat ((i + 1) mod 5) @ [newline, newline]
     @ lorem_paras ! nat ((i + 2) mod 5) @ [newline, newline]
     @ ''## Key Takeaways'' @ [newline, newline]
     @ ''- Insight one about the topic'' @ [newline, newline]
     @ ''- Practical tip for readers'' @ [newline, newline]
     @ ''- Closing thought to inspire action''
   \<and> distinct [(i + 0) mod 5, (i + 1) mod 5, (i + 2) mod 5]
   \<and> distinct [lorem_paras ! nat ((i + 0) mod 5), lorem_paras ! nat ((i + 1) mod 5),
               lorem_paras ! nat ((i + 2) mod 5)]"
proof -
  have layout: "content (make_doc now ord i) =
     ''# '' @ title (make_doc now ord i) @ [newline, newline]
     @ lorem_paras ! nat ((i + 0) mod 5) @ [newline, newline]
     @ lorem_paras ! nat ((i + 1) mod 5) @ [newline, newline]
     @ lorem_paras ! nat ((i + 2) mod 5) @ [newline, newline]
     @ ''## Key Takeaways'' @ [newline, newline]
     @ ''- Insight one about the topic'' @ [newline, newline]
     @ ''- Practical tip for readers'' @ [newline, newline]
     @ ''- Closing thought to inspire action''"
    by (simp add: content_make_doc title_make_doc make_content_def pick_def length_lorem_paras)
  have idx: "distinct [(i + 0) mod 5, (i + 1) mod 5, (i + 2) mod 5]"
    using para_indices_distinct [of i] by simp
  have "pick lorem_paras i \<noteq> pick lorem_paras (i + 1)"
    and "pick lorem_paras i \<noteq> pick lorem_paras (i + 2)"
    and "pick lorem_paras (i + 1) \<noteq> pick lorem_paras (i + 2)"
    using para_indices_distinct [of i] by (simp_all add: pick_lorem_inject)
  then have paras: "distinct [lorem_paras ! nat ((i + 0) mod 5), lorem_paras ! nat ((i + 1) mod 5),
               lorem_paras ! nat ((i + 2) mod 5)]"
    by (simp add: pick_def length_lorem_paras)
  show ?thesis
    using layout idx paras by (intro conjI)
qed


lemma nth_make_docs:
  "1 \<le> i \<Longrightarrow> i \<le> tot \<Longrightarrow> make_docs now ord tot ! nat (i - 1) = make_doc now ord i"
  by (simp add: make_docs_def)



end
